theory Spec2Isabelle
  imports Complex_Main
begin

section \<open>JavaScript numbers\<close>

text \<open>
  The engine \<^verbatim>\<open>calculateMixing\<close> (src/calculations.ts) computes on JavaScript
  numbers. A number is modelled as a finite real or one of the three special values
  of IEEE 754 that the engine's guards react to. Arithmetic between finite values is
  exact here: rounding, overflow to an infinity, underflow and the sign of zero are
  not part of the model (every zero divides like \<^verbatim>\<open>+0\<close>). The special values
  follow the rules of the language: \<^verbatim>\<open>0/0\<close>, \<^verbatim>\<open>Infinity - Infinity\<close> and
  \<^verbatim>\<open>0 * Infinity\<close> are \<^verbatim>\<open>NaN\<close>, \<^verbatim>\<open>x/0\<close> is an infinity for \<^verbatim>\<open>x \<noteq> 0\<close>,
  and \<^verbatim>\<open>NaN\<close> absorbs every operation and fails every comparison.
\<close>

datatype jsnum = Fin real | PInf | NInf | NaN

instantiation jsnum :: "{plus, minus, uminus, times, inverse}"
begin

fun uminus_jsnum :: "jsnum \<Rightarrow> jsnum" where
  "uminus_jsnum (Fin x) = Fin (- x)"
| "uminus_jsnum PInf = NInf"
| "uminus_jsnum NInf = PInf"
| "uminus_jsnum NaN = NaN"

fun plus_jsnum :: "jsnum \<Rightarrow> jsnum \<Rightarrow> jsnum" where
  "plus_jsnum (Fin x) (Fin y) = Fin (x + y)"
| "plus_jsnum (Fin x) PInf = PInf"
| "plus_jsnum (Fin x) NInf = NInf"
| "plus_jsnum PInf (Fin y) = PInf"
| "plus_jsnum PInf PInf = PInf"
| "plus_jsnum PInf NInf = NaN"
| "plus_jsnum NInf (Fin y) = NInf"
| "plus_jsnum NInf PInf = NaN"
| "plus_jsnum NInf NInf = NInf"
| "plus_jsnum NaN b = NaN"
| "plus_jsnum a NaN = NaN"

definition minus_jsnum :: "jsnum \<Rightarrow> jsnum \<Rightarrow> jsnum" where
  "minus_jsnum a b = a + (- b)"

fun times_jsnum :: "jsnum \<Rightarrow> jsnum \<Rightarrow> jsnum" where
  "times_jsnum (Fin x) (Fin y) = Fin (x * y)"
| "times_jsnum (Fin x) PInf = (if 0 < x then PInf else if x < 0 then NInf else NaN)"
| "times_jsnum (Fin x) NInf = (if 0 < x then NInf else if x < 0 then PInf else NaN)"
| "times_jsnum PInf (Fin y) = (if 0 < y then PInf else if y < 0 then NInf else NaN)"
| "times_jsnum PInf PInf = PInf"
| "times_jsnum PInf NInf = NInf"
| "times_jsnum NInf (Fin y) = (if 0 < y then NInf else if y < 0 then PInf else NaN)"
| "times_jsnum NInf PInf = NInf"
| "times_jsnum NInf NInf = PInf"
| "times_jsnum NaN b = NaN"
| "times_jsnum a NaN = NaN"

fun inverse_jsnum :: "jsnum \<Rightarrow> jsnum" where
  "inverse_jsnum (Fin y) = (if y \<noteq> 0 then Fin (1 / y) else PInf)"
| "inverse_jsnum PInf = Fin 0"
| "inverse_jsnum NInf = Fin 0"
| "inverse_jsnum NaN = NaN"

fun divide_jsnum :: "jsnum \<Rightarrow> jsnum \<Rightarrow> jsnum" where
  "divide_jsnum (Fin x) (Fin y) =
     (if y \<noteq> 0 then Fin (x / y)
      else if 0 < x then PInf else if x < 0 then NInf else NaN)"
| "divide_jsnum (Fin x) PInf = Fin 0"
| "divide_jsnum (Fin x) NInf = Fin 0"
| "divide_jsnum PInf (Fin y) = (if 0 \<le> y then PInf else NInf)"
| "divide_jsnum NInf (Fin y) = (if 0 \<le> y then NInf else PInf)"
| "divide_jsnum PInf PInf = NaN"
| "divide_jsnum PInf NInf = NaN"
| "divide_jsnum NInf PInf = NaN"
| "divide_jsnum NInf NInf = NaN"
| "divide_jsnum NaN b = NaN"
| "divide_jsnum a NaN = NaN"

instance ..

end

text \<open>The comparisons \<^verbatim>\<open><\<close>, \<^verbatim>\<open><=\<close> and \<^verbatim>\<open>>\<close>: false as soon as one side is \<^verbatim>\<open>NaN\<close>.\<close>

fun js_lt :: "jsnum \<Rightarrow> jsnum \<Rightarrow> bool" where
  "js_lt (Fin x) (Fin y) = (x < y)"
| "js_lt (Fin x) PInf = True"
| "js_lt NInf (Fin y) = True"
| "js_lt NInf PInf = True"
| "js_lt a b = False"

fun js_le :: "jsnum \<Rightarrow> jsnum \<Rightarrow> bool" where
  "js_le (Fin x) (Fin y) = (x \<le> y)"
| "js_le (Fin x) PInf = True"
| "js_le NInf (Fin y) = True"
| "js_le NInf PInf = True"
| "js_le PInf PInf = True"
| "js_le NInf NInf = True"
| "js_le a b = False"

definition js_gt :: "jsnum \<Rightarrow> jsnum \<Rightarrow> bool" where
  "js_gt a b = js_lt b a"

text \<open>\<^verbatim>\<open>isNaN\<close>, and the operator \<^verbatim>\<open>a || b\<close> on numbers: \<^verbatim>\<open>b\<close> when \<^verbatim>\<open>a\<close> is falsy
  (zero or \<^verbatim>\<open>NaN\<close>), else \<^verbatim>\<open>a\<close>.\<close>

fun isNaN :: "jsnum \<Rightarrow> bool" where
  "isNaN NaN = True"
| "isNaN a = False"

fun falsy :: "jsnum \<Rightarrow> bool" where
  "falsy (Fin x) = (x = 0)"
| "falsy NaN = True"
| "falsy a = False"

definition js_or :: "jsnum \<Rightarrow> jsnum \<Rightarrow> jsnum" where
  "js_or a b = (if falsy a then b else a)"

text \<open>\<^verbatim>\<open>Math.max\<close> and \<^verbatim>\<open>Math.min\<close> of two arguments: \<^verbatim>\<open>NaN\<close> if either is.\<close>

definition Math_max :: "jsnum \<Rightarrow> jsnum \<Rightarrow> jsnum" where
  "Math_max a b = (if isNaN a \<or> isNaN b then NaN else if js_lt a b then b else a)"

definition Math_min :: "jsnum \<Rightarrow> jsnum \<Rightarrow> jsnum" where
  "Math_min a b = (if isNaN a \<or> isNaN b then NaN else if js_lt b a then b else a)"

text \<open>\<^verbatim>\<open>Math.sqrt\<close>, \<^verbatim>\<open>Math.exp\<close>, \<^verbatim>\<open>Math.log\<close> and \<^verbatim>\<open>Math.log10\<close>.\<close>

fun Math_sqrt :: "jsnum \<Rightarrow> jsnum" where
  "Math_sqrt (Fin x) = (if 0 \<le> x then Fin (sqrt x) else NaN)"
| "Math_sqrt PInf = PInf"
| "Math_sqrt NInf = NaN"
| "Math_sqrt NaN = NaN"

fun Math_exp :: "jsnum \<Rightarrow> jsnum" where
  "Math_exp (Fin x) = Fin (exp x)"
| "Math_exp PInf = PInf"
| "Math_exp NInf = Fin 0"
| "Math_exp NaN = NaN"

fun Math_log :: "jsnum \<Rightarrow> jsnum" where
  "Math_log (Fin x) = (if 0 < x then Fin (ln x) else if x = 0 then NInf else NaN)"
| "Math_log PInf = PInf"
| "Math_log NInf = NaN"
| "Math_log NaN = NaN"

fun Math_log10 :: "jsnum \<Rightarrow> jsnum" where
  "Math_log10 (Fin x) = (if 0 < x then Fin (log 10 x) else if x = 0 then NInf else NaN)"
| "Math_log10 PInf = PInf"
| "Math_log10 NInf = NaN"
| "Math_log10 NaN = NaN"

text \<open>
  \<^verbatim>\<open>Math.pow(b, y)\<close>. Every exponent in the engine is a finite literal, so the
  exponent is a real. A negative base has a power only for an integer exponent, whose
  parity gives the sign; a zero base gives \<^verbatim>\<open>Infinity\<close> for a negative exponent.
\<close>

definition is_integer :: "real \<Rightarrow> bool" where
  "is_integer y = (of_int \<lfloor>y\<rfloor> = y)"

definition odd_integer :: "real \<Rightarrow> bool" where
  "odd_integer y = (is_integer y \<and> odd \<lfloor>y\<rfloor>)"

fun Math_pow :: "jsnum \<Rightarrow> real \<Rightarrow> jsnum" where
  "Math_pow (Fin x) y =
     (if y = 0 then Fin 1
      else if 0 < x then Fin (x powr y)
      else if x = 0 then (if 0 < y then Fin 0 else PInf)
      else if odd_integer y then Fin (- (\<bar>x\<bar> powr y))
      else if is_integer y then Fin (\<bar>x\<bar> powr y)
      else NaN)"
| "Math_pow PInf y = (if y = 0 then Fin 1 else if 0 < y then PInf else Fin 0)"
| "Math_pow NInf y =
     (if y = 0 then Fin 1
      else if 0 < y then (if odd_integer y then NInf else PInf)
      else Fin 0)"
| "Math_pow NaN y = (if y = 0 then Fin 1 else NaN)"

text \<open>
  Predicates on numbers for the statements below: \<^verbatim>\<open>Number.isFinite\<close>, a finite number
  that is positive, a finite number that is not negative, and a value that is anything
  but a negative number or \<^verbatim>\<open>-Infinity\<close>.
\<close>

fun isFinite :: "jsnum \<Rightarrow> bool" where
  "isFinite (Fin x) = True"
| "isFinite a = False"

fun is_pos :: "jsnum \<Rightarrow> bool" where
  "is_pos (Fin x) = (0 < x)"
| "is_pos a = False"

fun is_nonneg :: "jsnum \<Rightarrow> bool" where
  "is_nonneg (Fin x) = (0 \<le> x)"
| "is_nonneg a = False"

fun not_negative :: "jsnum \<Rightarrow> bool" where
  "not_negative (Fin x) = (0 \<le> x)"
| "not_negative NInf = False"
| "not_negative a = True"


section \<open>The data model (src/types.ts)\<close>

datatype ConduitType = PIPE | CHANNEL

datatype ConduitShape = CIRCULAR | RECTANGULAR

datatype MixerModel = NONE | KENICS_KM | HEV | SMV | STM | BAFFLES | WEIR

datatype InjectionType = SINGLE | TWIN

datatype PitchRatio = PR_1_125 | PR_1_5 | PR_2_25

datatype MomentumRegime = Low | Intermediate | High

text \<open>The optional properties \<^verbatim>\<open>depth?\<close> and \<^verbatim>\<open>slurryConcentration?\<close> are options:
  \<open>None\<close> is the property left undefined.\<close>

record MixingInputs =
  conduitType :: ConduitType
  conduitShape :: ConduitShape
  mixerModel :: MixerModel
  numElements :: jsnum
  flowRate :: jsnum
  dimension :: jsnum
  depth :: "jsnum option"
  availableLength :: jsnum
  viscosity :: jsnum
  density :: jsnum
  chemicalType :: string
  chemicalDose :: jsnum
  chemicalFlow :: jsnum
  chemicalDensity :: jsnum
  chemicalViscosity :: jsnum
  dilutionWaterFlow :: jsnum
  targetCoV :: jsnum
  targetMixingTime :: jsnum
  slurryConcentration :: "jsnum option"
  injectionType :: InjectionType
  pitchRatio :: PitchRatio
  waterTemperature :: jsnum

record CalculationResults =
  velocity :: jsnum
  reynoldsNumber :: jsnum
  momentumRatio :: jsnum
  momentumRegime :: MomentumRegime
  naturalMixingCoV :: jsnum
  mixerCoV :: jsnum
  isCompliant :: bool
  isTimeCompliant :: bool
  mixingDistanceNeeded :: jsnum
  mixingTimeNeeded :: jsnum
  viscosityRatio :: jsnum
  injectedViscosity :: jsnum
  injectedDensity :: jsnum
  totalInjectionFlow :: jsnum
  headloss :: jsnum
  headlossMeters :: jsnum
  gValue :: jsnum
  limeSaturationLimit :: jsnum
  dissolvedAtTarget :: jsnum
  timeTo95Dissolution :: jsnum
  distanceTo95Dissolution :: jsnum
  suggestedOrificeDiameter :: jsnum
  manufacturerNotes :: string
  hydraulicDiameter :: jsnum
  wettedArea :: jsnum

section \<open>The engine (src/calculations.ts)\<close>

text \<open>
  \<^verbatim>\<open>calculateMixing\<close> is one function of some forty local constants. Each local is a
  definition over the input record here, under the name it has in the source; a local
  whose name is also a field of the result carries the suffix \<open>_of\<close> (and \<^verbatim>\<open>Re\<close>
  is \<open>Re_of\<close>).
\<close>

subsection \<open>Destructuring and constants (lines 5-15)\<close>

text \<open>\<^verbatim>\<open>depth = 0.5\<close> in the destructuring pattern: the default replaces an undefined
  property only.\<close>

definition depth_of :: "MixingInputs \<Rightarrow> jsnum" where
  "depth_of inp = (case depth inp of None \<Rightarrow> Fin 0.5 | Some h \<Rightarrow> h)"

definition g :: jsnum where
  "g = Fin 9.81"

definition waterDensity :: jsnum where
  "waterDensity = Fin 1000"

definition waterViscosity :: jsnum where
  "waterViscosity = Fin 0.001"

subsection \<open>1. Dilution and injection properties (lines 18-27)\<close>

definition totalInjectionFlowLh :: "MixingInputs \<Rightarrow> jsnum" where
  "totalInjectionFlowLh inp = chemicalFlow inp + dilutionWaterFlow inp"

definition totalInjectionFlowM3s :: "MixingInputs \<Rightarrow> jsnum" where
  "totalInjectionFlowM3s inp = totalInjectionFlowLh inp / Fin 3600000"

definition x_chem :: "MixingInputs \<Rightarrow> jsnum" where
  "x_chem inp = chemicalFlow inp / js_or (totalInjectionFlowLh inp) (Fin 1)"

definition x_water :: "MixingInputs \<Rightarrow> jsnum" where
  "x_water inp = dilutionWaterFlow inp / js_or (totalInjectionFlowLh inp) (Fin 1)"

definition injectedDensity_of :: "MixingInputs \<Rightarrow> jsnum" where
  "injectedDensity_of inp =
     (x_chem inp * chemicalDensity inp) + (x_water inp * waterDensity)"

definition injectedViscosity_of :: "MixingInputs \<Rightarrow> jsnum" where
  "injectedViscosity_of inp =
     Math_exp (x_chem inp * Math_log (js_or (chemicalViscosity inp) (Fin 0.000001))
             + x_water inp * Math_log (js_or waterViscosity (Fin 0.000001)))"

subsection \<open>2. Geometry and hydraulics (lines 30-55)\<close>

text \<open>The three mutable locals \<^verbatim>\<open>area\<close>, \<^verbatim>\<open>perimeter\<close> and
  \<^verbatim>\<open>hydraulicDiameter\<close> are assigned together in one branch of the conditional.\<close>

record Geometry =
  geo_area :: jsnum
  geo_perimeter :: jsnum
  geo_hydraulicDiameter :: jsnum

definition geometry :: "MixingInputs \<Rightarrow> Geometry" where
  "geometry inp =
     (if conduitType inp = PIPE then
        (if conduitShape inp = CIRCULAR then
           \<lparr> geo_area = Fin pi * Math_pow (dimension inp / Fin 2) 2,
             geo_perimeter = Fin pi * dimension inp,
             geo_hydraulicDiameter = dimension inp \<rparr>
         else
           (let area = dimension inp * js_or (depth_of inp) (dimension inp);
                perimeter = Fin 2 * (dimension inp + js_or (depth_of inp) (dimension inp))
            in \<lparr> geo_area = area,
                 geo_perimeter = perimeter,
                 geo_hydraulicDiameter = (Fin 4 * area) / perimeter \<rparr>))
      else
        (let area = dimension inp * depth_of inp
         in \<lparr> geo_area = area,
              geo_perimeter = dimension inp + Fin 2 * depth_of inp,
              geo_hydraulicDiameter =
                (Fin 4 * area) / (dimension inp + Fin 2 * depth_of inp) \<rparr>))"

definition area :: "MixingInputs \<Rightarrow> jsnum" where
  "area inp = geo_area (geometry inp)"

definition perimeter :: "MixingInputs \<Rightarrow> jsnum" where
  "perimeter inp = geo_perimeter (geometry inp)"

definition hydraulicDiameter_of :: "MixingInputs \<Rightarrow> jsnum" where
  "hydraulicDiameter_of inp = geo_hydraulicDiameter (geometry inp)"

definition Q_m3s :: "MixingInputs \<Rightarrow> jsnum" where
  "Q_m3s inp = flowRate inp / Fin 3600"

definition velocity_of :: "MixingInputs \<Rightarrow> jsnum" where
  "velocity_of inp = Q_m3s inp / js_or (area inp) (Fin 0.000001)"

definition Re_of :: "MixingInputs \<Rightarrow> jsnum" where
  "Re_of inp =
     (density inp * velocity_of inp * hydraulicDiameter_of inp)
       / js_or (viscosity inp) (Fin 0.000001)"

subsection \<open>3. Momentum ratio (lines 58-73)\<close>

definition targetMR :: jsnum where
  "targetMR = Fin 0.22"

definition numPoints :: "MixingInputs \<Rightarrow> jsnum" where
  "numPoints inp = (if injectionType inp = TWIN then Fin 2 else Fin 1)"

definition flowPerPointM3s :: "MixingInputs \<Rightarrow> jsnum" where
  "flowPerPointM3s inp = totalInjectionFlowM3s inp / numPoints inp"

definition suggestedOrificeDiameter_of :: "MixingInputs \<Rightarrow> jsnum" where
  "suggestedOrificeDiameter_of inp =
     (Fin 4 * flowPerPointM3s inp
        * Math_sqrt (injectedDensity_of inp / js_or (density inp) (Fin 1)))
     / js_or (Fin pi * targetMR * velocity_of inp * hydraulicDiameter_of inp) (Fin 0.000001)"

definition d_inj_default :: jsnum where
  "d_inj_default = Fin 0.025"

definition u_inj_actual :: "MixingInputs \<Rightarrow> jsnum" where
  "u_inj_actual inp =
     flowPerPointM3s inp
       / js_or (Fin pi * Math_pow (d_inj_default / Fin 2) 2) (Fin 0.000000001)"

definition momentumRatio_of :: "MixingInputs \<Rightarrow> jsnum" where
  "momentumRatio_of inp =
     Math_sqrt (injectedDensity_of inp / js_or (density inp) (Fin 1))
       * (u_inj_actual inp * d_inj_default
            / js_or (velocity_of inp * hydraulicDiameter_of inp) (Fin 0.000001))"

text \<open>Lines 69-71: the regime starts as \<^verbatim>\<open>'Intermediate'\<close> and is reassigned by the
  two comparisons, the second tried only when the first fails.\<close>

definition classifyRegime :: "jsnum \<Rightarrow> MomentumRegime" where
  "classifyRegime mr =
     (if js_lt mr (Fin 0.16) then Low
      else if js_gt mr (Fin 0.24) then High
      else Intermediate)"

definition momentumRegime_of :: "MixingInputs \<Rightarrow> MomentumRegime" where
  "momentumRegime_of inp = classifyRegime (momentumRatio_of inp)"

definition alpha :: "MixingInputs \<Rightarrow> jsnum" where
  "alpha inp = (Q_m3s inp * Fin 3600000) / js_or (totalInjectionFlowLh inp) (Fin 1)"

subsection \<open>4. CoV correlations (lines 76-153)\<close>

text \<open>
  The \<^verbatim>\<open>switch\<close> assigns the four mutable locals \<^verbatim>\<open>mixerCoV\<close>, \<^verbatim>\<open>FD\<close>,
  \<^verbatim>\<open>Lm\<close> and \<^verbatim>\<open>manufacturerNotes\<close>. They are threaded as a state: each case of
  the switch is a function that updates the state it is given, and a case that does not
  assign a local leaves the initial value in place.
\<close>

record Correlation =
  cor_mixerCoV :: jsnum
  cor_FD :: jsnum
  cor_Lm :: jsnum
  cor_manufacturerNotes :: string

definition initial :: Correlation where
  "initial =
     \<lparr> cor_mixerCoV = Fin 1.0,
       cor_FD = Fin 0.02,
       cor_Lm = Fin 0,
       cor_manufacturerNotes = ''Standard BHR quill recommendations apply.'' \<rparr>"

definition LD :: "MixingInputs \<Rightarrow> jsnum" where
  "LD inp = availableLength inp / hydraulicDiameter_of inp"

definition case_KENICS_KM :: "MixingInputs \<Rightarrow> Correlation \<Rightarrow> Correlation" where
  "case_KENICS_KM inp s =
     s\<lparr> cor_mixerCoV :=
          (if injectionType inp = SINGLE then
             Fin 0.96 * Math_pow (Re_of inp) (- 0.1) * Math_pow (alpha inp) 0.03
               * Math_pow (numElements inp) (- 1.9)
           else
             Fin 0.38 * Math_pow (Re_of inp) 0.008 * Math_pow (alpha inp) 0.08
               * Math_pow (numElements inp) (- 2.1)),
        cor_FD := Fin 1.9,
        cor_Lm := numElements inp * Fin 1.5 * hydraulicDiameter_of inp,
        cor_manufacturerNotes :=
          ''Chemineer recommends the quill terminate at 0.5Dh upstream. DH calculated for current geometry.'' \<rparr>"

definition case_HEV :: "MixingInputs \<Rightarrow> Correlation \<Rightarrow> Correlation" where
  "case_HEV inp s =
     (if conduitType inp = CHANNEL then
        s\<lparr> cor_mixerCoV :=
             Fin 60 * Math_pow (LD inp) (- 0.6) * Math_pow (numElements inp) (- 0.9)
               * Math_pow (Re_of inp) (- 0.4),
           cor_FD := Fin 0.45,
           cor_Lm := numElements inp * hydraulicDiameter_of inp \<rparr>
      else
        s\<lparr> cor_mixerCoV :=
             (if js_le (LD inp) (Fin 3) then
                Fin 31.5 * Math_pow (Re_of inp) (- 0.2) * Math_pow (alpha inp) (- 0.15)
                  * Math_pow (numElements inp) (- 1.7)
              else
                Fin 1.1 * Math_pow (Re_of inp) (- 0.04) * Math_pow (alpha inp) 0.02
                  * Math_pow (numElements inp) (- 1.9)),
           cor_FD := Fin 0.6,
           cor_Lm := numElements inp * hydraulicDiameter_of inp \<rparr>)
     \<lparr> cor_manufacturerNotes :=
         ''HEV tabs work best when injection is centered relative to the DH axis.'' \<rparr>"

definition case_SMV :: "MixingInputs \<Rightarrow> Correlation \<Rightarrow> Correlation" where
  "case_SMV inp s =
     s\<lparr> cor_mixerCoV :=
          Fin 0.3 * Math_pow (Re_of inp) (- 0.02) * Math_pow (alpha inp) (- 0.01)
            * Math_pow (numElements inp) (- 1.6),
        cor_FD := Fin 10.1,
        cor_Lm := numElements inp * hydraulicDiameter_of inp,
        cor_manufacturerNotes :=
          ''Sulzer SMV is high-performance; initial distribution is critical for short conduits.'' \<rparr>"

definition case_STM :: "MixingInputs \<Rightarrow> Correlation \<Rightarrow> Correlation" where
  "case_STM inp s =
     (if conduitType inp = CHANNEL then
        (if pitchRatio inp = PR_1_125 then
           s\<lparr> cor_mixerCoV :=
                Fin 0.00021 * Math_pow (LD inp) (- 0.2) * Math_pow (numElements inp) (- 0.3)
                  * Math_pow (alpha inp) (- 0.02) * Math_pow (Re_of inp) 0.7,
              cor_FD := Fin 3.0 \<rparr>
         else if pitchRatio inp = PR_1_5 then
           s\<lparr> cor_mixerCoV :=
                Fin 0.29 * Math_pow (LD inp) (- 0.07) * Math_pow (numElements inp) (- 0.25)
                  * Math_pow (alpha inp) 0.1 * Math_pow (Re_of inp) (- 0.2),
              cor_FD := Fin 7.6 \<rparr>
         else
           s\<lparr> cor_mixerCoV :=
                Fin 48 * Math_pow (LD inp) (- 0.2) * Math_pow (numElements inp) (- 0.2)
                  * Math_pow (alpha inp) 0.7 * Math_pow (Re_of inp) (- 1.1),
              cor_FD := Fin 1.9 \<rparr>)
        \<lparr> cor_Lm := numElements inp * Fin 0.5 * hydraulicDiameter_of inp \<rparr>
      else
        s\<lparr> cor_mixerCoV :=
             (if pitchRatio inp = PR_1_5 then
                Fin 0.29 * Math_pow (Re_of inp) (- 0.2) * Math_pow (alpha inp) 0.09
                  * Math_pow (numElements inp) (- 0.6)
              else
                Fin 0.28 * Math_pow (Re_of inp) (- 0.04) * Math_pow (alpha inp) 0.10
                  * Math_pow (numElements inp) (- 2.1)),
           cor_FD := (if pitchRatio inp = PR_1_5 then Fin 4.15 else Fin 2.3),
           cor_Lm := numElements inp * Fin 0.8 * hydraulicDiameter_of inp \<rparr>)"

text \<open>\<^verbatim>\<open>case MixerModel.NONE: default:\<close> (lines 139-150). \<^verbatim>\<open>FD\<close> is assigned first
  and read again by the pipe correlation.\<close>

definition default_FD :: "MixingInputs \<Rightarrow> jsnum" where
  "default_FD inp =
     Fin 0.25
       / Math_pow (Math_log10 (Fin 0.0001 / (Fin 3.7 * hydraulicDiameter_of inp)
                                 + Fin 5.74 / Math_pow (Re_of inp) 0.9)) 2"

definition case_default :: "MixingInputs \<Rightarrow> Correlation \<Rightarrow> Correlation" where
  "case_default inp s =
     (let s1 = s\<lparr> cor_FD := default_FD inp, cor_Lm := availableLength inp \<rparr>
      in if conduitType inp = CHANNEL then
           (let mrSafe = Math_max (Fin 0.01) (momentumRatio_of inp)
            in s1\<lparr> cor_mixerCoV :=
                     Fin 0.0183 * Math_pow (LD inp) (- 1 / 1.3)
                       * Math_pow mrSafe (- 2.21 / 1.3) \<rparr>)
         else
           (let CoVi = Math_sqrt (alpha inp)
            in s1\<lparr> cor_mixerCoV :=
                     Fin 2 * CoVi
                       * Math_exp (Fin (- 0.75) * Math_sqrt (cor_FD s1) * LD inp) \<rparr>))"

definition correlation :: "MixingInputs \<Rightarrow> Correlation" where
  "correlation inp =
     (case mixerModel inp of
        KENICS_KM \<Rightarrow> case_KENICS_KM inp initial
      | HEV \<Rightarrow> case_HEV inp initial
      | SMV \<Rightarrow> case_SMV inp initial
      | STM \<Rightarrow> case_STM inp initial
      | NONE \<Rightarrow> case_default inp initial
      | _ \<Rightarrow> case_default inp initial)"

definition FD :: "MixingInputs \<Rightarrow> jsnum" where
  "FD inp = cor_FD (correlation inp)"

definition Lm :: "MixingInputs \<Rightarrow> jsnum" where
  "Lm inp = cor_Lm (correlation inp)"

definition manufacturerNotes_of :: "MixingInputs \<Rightarrow> string" where
  "manufacturerNotes_of inp = cor_manufacturerNotes (correlation inp)"

text \<open>Line 153, the clamp: \<^verbatim>\<open>isNaN(mixerCoV) ? 1.0 : Math.min(1.0, Math.max(0.0001, mixerCoV))\<close>.\<close>

definition clampCoV :: "jsnum \<Rightarrow> jsnum" where
  "clampCoV c = (if isNaN c then Fin 1.0 else Math_min (Fin 1.0) (Math_max (Fin 0.0001) c))"

definition mixerCoV_of :: "MixingInputs \<Rightarrow> jsnum" where
  "mixerCoV_of inp = clampCoV (cor_mixerCoV (correlation inp))"

subsection \<open>5. Headloss and G-value (lines 156-160)\<close>

definition headlossMeters_of :: "MixingInputs \<Rightarrow> jsnum" where
  "headlossMeters_of inp =
     (if mixerModel inp = WEIR then Fin 0.15
      else (FD inp * Lm inp * Math_pow (velocity_of inp) 2)
             / (Fin 2 * g * hydraulicDiameter_of inp))"

definition headlossKpa :: "MixingInputs \<Rightarrow> jsnum" where
  "headlossKpa inp = (headlossMeters_of inp * density inp * g) / Fin 1000"

definition powerDissipated :: "MixingInputs \<Rightarrow> jsnum" where
  "powerDissipated inp = headlossKpa inp * Fin 1000 * Q_m3s inp"

definition volForG :: "MixingInputs \<Rightarrow> jsnum" where
  "volForG inp = area inp * Math_max (Lm inp) (hydraulicDiameter_of inp)"

definition gValue_of :: "MixingInputs \<Rightarrow> jsnum" where
  "gValue_of inp =
     Math_sqrt (powerDissipated inp / js_or (viscosity inp * volForG inp) (Fin 0.000000001))"

subsection \<open>6. Dissolution (lines 163-166)\<close>

definition limeSaturationLimit_of :: "MixingInputs \<Rightarrow> jsnum" where
  "limeSaturationLimit_of inp =
     (Fin (- 0.00004) * Math_pow (waterTemperature inp) 2
        - Fin 0.0125 * waterTemperature inp + Fin 1.83) * Fin 1000"

definition rateK :: "MixingInputs \<Rightarrow> jsnum" where
  "rateK inp =
     Fin 0.3 * Math_sqrt (Math_max (Fin 1) (gValue_of inp) / Fin 100)
       * Math_max (Fin 0.1)
           ((limeSaturationLimit_of inp - chemicalDose inp) / limeSaturationLimit_of inp)"

definition timeTo95 :: "MixingInputs \<Rightarrow> jsnum" where
  "timeTo95 inp = Math_log (Fin 1 / Fin 0.05) / js_or (rateK inp) (Fin 0.001)"

definition distanceTo95 :: "MixingInputs \<Rightarrow> jsnum" where
  "distanceTo95 inp = timeTo95 inp * velocity_of inp"

subsection \<open>7. Overall required distance (lines 169-174)\<close>

text \<open>\<^verbatim>\<open>String.prototype.includes\<close>: the argument occurs as a contiguous substring.\<close>

fun startsWith :: "string \<Rightarrow> string \<Rightarrow> bool" where
  "startsWith s [] = True"
| "startsWith [] (c # t) = False"
| "startsWith (a # s) (c # t) = (a = c \<and> startsWith s t)"

fun str_includes :: "string \<Rightarrow> string \<Rightarrow> bool" where
  "str_includes [] t = (t = [])"
| "str_includes (a # s) t = (startsWith (a # s) t \<or> str_includes s t)"

definition decayRate :: "MixingInputs \<Rightarrow> jsnum" where
  "decayRate inp =
     (if conduitType inp = PIPE then Fin 0.75 * Math_sqrt (Fin 0.02) else Fin 0.6)"

definition mixingDistanceNeeded_of :: "MixingInputs \<Rightarrow> jsnum" where
  "mixingDistanceNeeded_of inp =
     (if js_le (mixerCoV_of inp) (targetCoV inp) then Lm inp
      else Lm inp
             + (Math_log (mixerCoV_of inp / targetCoV inp) / js_or (decayRate inp) (Fin 0.1))
                 * hydraulicDiameter_of inp)"

definition finalDistanceNeeded :: "MixingInputs \<Rightarrow> jsnum" where
  "finalDistanceNeeded inp =
     (if str_includes (chemicalType inp) ''Lime''
      then Math_max (mixingDistanceNeeded_of inp) (distanceTo95 inp)
      else mixingDistanceNeeded_of inp)"

definition mixingTimeNeeded_of :: "MixingInputs \<Rightarrow> jsnum" where
  "mixingTimeNeeded_of inp = finalDistanceNeeded inp / js_or (velocity_of inp) (Fin 0.000001)"

definition dissolvedAtTarget_of :: "MixingInputs \<Rightarrow> jsnum" where
  "dissolvedAtTarget_of inp =
     (Fin 1 - Math_exp (- rateK inp * mixingTimeNeeded_of inp)) * Fin 100"

subsection \<open>The result (lines 176-202)\<close>

definition calculateMixing :: "MixingInputs \<Rightarrow> CalculationResults" where
  "calculateMixing inp =
     \<lparr> velocity = velocity_of inp,
       reynoldsNumber = Re_of inp,
       momentumRatio = momentumRatio_of inp,
       momentumRegime = momentumRegime_of inp,
       naturalMixingCoV = Fin 1.0,
       mixerCoV = mixerCoV_of inp,
       isCompliant =
         (js_le (mixerCoV_of inp) (targetCoV inp)
          \<and> (\<not> str_includes (chemicalType inp) ''Lime''
               \<or> js_gt (dissolvedAtTarget_of inp) (Fin 90))),
       isTimeCompliant = js_le (mixingTimeNeeded_of inp) (targetMixingTime inp),
       mixingDistanceNeeded = finalDistanceNeeded inp,
       mixingTimeNeeded = mixingTimeNeeded_of inp,
       viscosityRatio = injectedViscosity_of inp / js_or (viscosity inp) (Fin 0.000001),
       injectedViscosity = injectedViscosity_of inp,
       injectedDensity = injectedDensity_of inp,
       totalInjectionFlow = totalInjectionFlowLh inp,
       headloss = headlossKpa inp,
       headlossMeters = headlossMeters_of inp,
       gValue = gValue_of inp,
       limeSaturationLimit = limeSaturationLimit_of inp,
       dissolvedAtTarget = Math_min (Fin 100) (dissolvedAtTarget_of inp),
       timeTo95Dissolution = timeTo95 inp,
       distanceTo95Dissolution = distanceTo95 inp,
       suggestedOrificeDiameter = suggestedOrificeDiameter_of inp * Fin 1000,
       manufacturerNotes = manufacturerNotes_of inp,
       hydraulicDiameter = hydraulicDiameter_of inp,
       wettedArea = area inp \<rparr>"

subsection \<open>The form's initial inputs (src/App.tsx, lines 49-72)\<close>

definition defaultInputs :: MixingInputs where
  "defaultInputs =
     \<lparr> conduitType = PIPE,
       conduitShape = CIRCULAR,
       mixerModel = NONE,
       numElements = Fin 4,
       flowRate = Fin 1500,
       dimension = Fin 0.8,
       depth = Some (Fin 0.6),
       availableLength = Fin 10,
       viscosity = Fin 0.001,
       density = Fin 1000,
       chemicalType = ''Ferric Chloride (40%)'',
       chemicalDose = Fin 1.0,
       chemicalFlow = Fin 10,
       chemicalDensity = Fin 1450,
       chemicalViscosity = Fin 0.015,
       dilutionWaterFlow = Fin 200,
       targetCoV = Fin 0.05,
       targetMixingTime = Fin 10.0,
       slurryConcentration = Some (Fin 10),
       injectionType = SINGLE,
       pitchRatio = PR_1_5,
       waterTemperature = Fin 15 \<rparr>"

subsection \<open>Well-formed inputs and finite results\<close>

text \<open>
  An input is well formed when its physical quantities have the signs they have in an
  installation: positive bulk flow, geometry, viscosity, density, element count and target
  CoV, a water temperature between 0 and 100 degrees, and no negative injection flow,
  chemical property or length. A result is finite when none of its 21 numeric fields is
  \<^verbatim>\<open>NaN\<close> or an infinity.
\<close>

definition wellFormed :: "MixingInputs \<Rightarrow> bool" where
  "wellFormed inp =
     (is_pos (flowRate inp) \<and> is_pos (dimension inp)
      \<and> (case depth inp of None \<Rightarrow> True | Some h \<Rightarrow> is_pos h)
      \<and> is_pos (viscosity inp) \<and> is_pos (density inp)
      \<and> is_nonneg (chemicalFlow inp) \<and> is_nonneg (dilutionWaterFlow inp)
      \<and> is_nonneg (chemicalDensity inp) \<and> is_nonneg (chemicalViscosity inp)
      \<and> is_nonneg (availableLength inp) \<and> is_pos (numElements inp)
      \<and> is_pos (targetCoV inp) \<and> isFinite (chemicalDose inp)
      \<and> js_le (Fin 0) (waterTemperature inp) \<and> js_le (waterTemperature inp) (Fin 100))"


section \<open>The mixer model reaches the result through the switch and the headloss only\<close>

text \<open>Every local computed before the switch ignores the \<^verbatim>\<open>mixerModel\<close> field.\<close>

lemma upstream_mixerModel_update:
  "depth_of (inp\<lparr>mixerModel := m\<rparr>) = depth_of inp"
  "totalInjectionFlowLh (inp\<lparr>mixerModel := m\<rparr>) = totalInjectionFlowLh inp"
  "geometry (inp\<lparr>mixerModel := m\<rparr>) = geometry inp"
  "Q_m3s (inp\<lparr>mixerModel := m\<rparr>) = Q_m3s inp"
  "numPoints (inp\<lparr>mixerModel := m\<rparr>) = numPoints inp"
  by (simp_all add: depth_of_def totalInjectionFlowLh_def geometry_def Q_m3s_def numPoints_def)

lemma injection_mixerModel_update:
  "totalInjectionFlowM3s (inp\<lparr>mixerModel := m\<rparr>) = totalInjectionFlowM3s inp"
  "x_chem (inp\<lparr>mixerModel := m\<rparr>) = x_chem inp"
  "x_water (inp\<lparr>mixerModel := m\<rparr>) = x_water inp"
  "alpha (inp\<lparr>mixerModel := m\<rparr>) = alpha inp"
  "area (inp\<lparr>mixerModel := m\<rparr>) = area inp"
  "perimeter (inp\<lparr>mixerModel := m\<rparr>) = perimeter inp"
  "hydraulicDiameter_of (inp\<lparr>mixerModel := m\<rparr>) = hydraulicDiameter_of inp"
  by (simp_all add: totalInjectionFlowM3s_def x_chem_def x_water_def alpha_def area_def
      perimeter_def hydraulicDiameter_of_def upstream_mixerModel_update)

lemma blend_mixerModel_update:
  "injectedDensity_of (inp\<lparr>mixerModel := m\<rparr>) = injectedDensity_of inp"
  "injectedViscosity_of (inp\<lparr>mixerModel := m\<rparr>) = injectedViscosity_of inp"
  "velocity_of (inp\<lparr>mixerModel := m\<rparr>) = velocity_of inp"
  "flowPerPointM3s (inp\<lparr>mixerModel := m\<rparr>) = flowPerPointM3s inp"
  "LD (inp\<lparr>mixerModel := m\<rparr>) = LD inp"
  by (simp_all add: injectedDensity_of_def injectedViscosity_of_def velocity_of_def
      flowPerPointM3s_def LD_def upstream_mixerModel_update injection_mixerModel_update)

lemma momentum_mixerModel_update:
  "Re_of (inp\<lparr>mixerModel := m\<rparr>) = Re_of inp"
  "suggestedOrificeDiameter_of (inp\<lparr>mixerModel := m\<rparr>) = suggestedOrificeDiameter_of inp"
  "u_inj_actual (inp\<lparr>mixerModel := m\<rparr>) = u_inj_actual inp"
  by (simp_all add: Re_of_def suggestedOrificeDiameter_of_def u_inj_actual_def
      upstream_mixerModel_update injection_mixerModel_update blend_mixerModel_update)

lemma regime_mixerModel_update:
  "momentumRatio_of (inp\<lparr>mixerModel := m\<rparr>) = momentumRatio_of inp"
  "momentumRegime_of (inp\<lparr>mixerModel := m\<rparr>) = momentumRegime_of inp"
  "default_FD (inp\<lparr>mixerModel := m\<rparr>) = default_FD inp"
  "limeSaturationLimit_of (inp\<lparr>mixerModel := m\<rparr>) = limeSaturationLimit_of inp"
  "decayRate (inp\<lparr>mixerModel := m\<rparr>) = decayRate inp"
  by (simp_all add: momentumRatio_of_def momentumRegime_of_def default_FD_def
      limeSaturationLimit_of_def decayRate_def
      injection_mixerModel_update blend_mixerModel_update momentum_mixerModel_update)

lemmas mixerModel_update =
  upstream_mixerModel_update injection_mixerModel_update blend_mixerModel_update
  momentum_mixerModel_update regime_mixerModel_update

lemma case_default_mixerModel_update:
  "case_default (inp\<lparr>mixerModel := m\<rparr>) s = case_default inp s"
  by (simp add: case_default_def Let_def mixerModel_update)

text \<open>\<^verbatim>\<open>NONE\<close> has the labelled case; \<^verbatim>\<open>BAFFLES\<close> and \<^verbatim>\<open>WEIR\<close> have no case and
  reach the same statements through \<^verbatim>\<open>default\<close>.\<close>

lemma correlation_default:
  "correlation (inp\<lparr>mixerModel := NONE\<rparr>) = case_default inp initial"
  "correlation (inp\<lparr>mixerModel := BAFFLES\<rparr>) = case_default inp initial"
  "correlation (inp\<lparr>mixerModel := WEIR\<rparr>) = case_default inp initial"
  by (simp_all add: correlation_def case_default_mixerModel_update)

lemma correlation_fields_default:
  assumes "m = NONE \<or> m = BAFFLES \<or> m = WEIR"
  shows "FD (inp\<lparr>mixerModel := m\<rparr>) = cor_FD (case_default inp initial)"
    and "Lm (inp\<lparr>mixerModel := m\<rparr>) = cor_Lm (case_default inp initial)"
    and "manufacturerNotes_of (inp\<lparr>mixerModel := m\<rparr>)
           = cor_manufacturerNotes (case_default inp initial)"
    and "mixerCoV_of (inp\<lparr>mixerModel := m\<rparr>)
           = clampCoV (cor_mixerCoV (case_default inp initial))"
  using assms
  by (auto simp add: FD_def Lm_def manufacturerNotes_of_def mixerCoV_of_def correlation_default)

subsection \<open>BAFFLES against NONE\<close>

lemma headloss_BAFFLES_NONE:
  "headlossMeters_of (inp\<lparr>mixerModel := BAFFLES\<rparr>)
     = headlossMeters_of (inp\<lparr>mixerModel := NONE\<rparr>)"
  by (simp add: headlossMeters_of_def correlation_fields_default mixerModel_update)

lemma energy_BAFFLES_NONE:
  "headlossKpa (inp\<lparr>mixerModel := BAFFLES\<rparr>) = headlossKpa (inp\<lparr>mixerModel := NONE\<rparr>)"
  "powerDissipated (inp\<lparr>mixerModel := BAFFLES\<rparr>)
     = powerDissipated (inp\<lparr>mixerModel := NONE\<rparr>)"
  "volForG (inp\<lparr>mixerModel := BAFFLES\<rparr>) = volForG (inp\<lparr>mixerModel := NONE\<rparr>)"
  "gValue_of (inp\<lparr>mixerModel := BAFFLES\<rparr>) = gValue_of (inp\<lparr>mixerModel := NONE\<rparr>)"
  by (simp_all add: headlossKpa_def powerDissipated_def volForG_def gValue_of_def
      headloss_BAFFLES_NONE correlation_fields_default mixerModel_update)

lemma kinetics_BAFFLES_NONE:
  "rateK (inp\<lparr>mixerModel := BAFFLES\<rparr>) = rateK (inp\<lparr>mixerModel := NONE\<rparr>)"
  "timeTo95 (inp\<lparr>mixerModel := BAFFLES\<rparr>) = timeTo95 (inp\<lparr>mixerModel := NONE\<rparr>)"
  "distanceTo95 (inp\<lparr>mixerModel := BAFFLES\<rparr>) = distanceTo95 (inp\<lparr>mixerModel := NONE\<rparr>)"
  "mixingDistanceNeeded_of (inp\<lparr>mixerModel := BAFFLES\<rparr>)
     = mixingDistanceNeeded_of (inp\<lparr>mixerModel := NONE\<rparr>)"
  by (simp_all add: rateK_def timeTo95_def distanceTo95_def mixingDistanceNeeded_of_def
      energy_BAFFLES_NONE correlation_fields_default mixerModel_update)

lemma distance_BAFFLES_NONE:
  "finalDistanceNeeded (inp\<lparr>mixerModel := BAFFLES\<rparr>)
     = finalDistanceNeeded (inp\<lparr>mixerModel := NONE\<rparr>)"
  "mixingTimeNeeded_of (inp\<lparr>mixerModel := BAFFLES\<rparr>)
     = mixingTimeNeeded_of (inp\<lparr>mixerModel := NONE\<rparr>)"
  "dissolvedAtTarget_of (inp\<lparr>mixerModel := BAFFLES\<rparr>)
     = dissolvedAtTarget_of (inp\<lparr>mixerModel := NONE\<rparr>)"
  by (simp_all add: finalDistanceNeeded_def mixingTimeNeeded_of_def dissolvedAtTarget_of_def
      kinetics_BAFFLES_NONE mixerModel_update)

text \<open>
  Claim C6. For every input, \<^verbatim>\<open>calculateMixing\<close> with \<^verbatim>\<open>mixerModel = BAFFLES\<close>
  returns the same result, field by field, as on the same input with
  \<^verbatim>\<open>mixerModel = NONE\<close>: BAFFLES has no case of its own in the switch and no special
  treatment after it, so the correlation, \<^verbatim>\<open>FD\<close>, \<^verbatim>\<open>Lm\<close>, the guidance string and
  everything derived from them coincide.
\<close>

theorem BAFFLES_identical_to_NONE:
  "calculateMixing (inp\<lparr>mixerModel := BAFFLES\<rparr>)
     = calculateMixing (inp\<lparr>mixerModel := NONE\<rparr>)"
  by (simp add: calculateMixing_def distance_BAFFLES_NONE kinetics_BAFFLES_NONE
      energy_BAFFLES_NONE headloss_BAFFLES_NONE correlation_fields_default mixerModel_update)

theorem BAFFLES_identical_to_NONE_witness:
  "calculateMixing (defaultInputs\<lparr>mixerModel := BAFFLES\<rparr>)
     = calculateMixing (defaultInputs\<lparr>mixerModel := NONE\<rparr>)"
  by (rule BAFFLES_identical_to_NONE)

section \<open>Reading the result record\<close>

lemma result_fields:
  "velocity (calculateMixing inp) = velocity_of inp"
  "reynoldsNumber (calculateMixing inp) = Re_of inp"
  "momentumRatio (calculateMixing inp) = momentumRatio_of inp"
  "momentumRegime (calculateMixing inp) = momentumRegime_of inp"
  "naturalMixingCoV (calculateMixing inp) = Fin 1"
  "mixerCoV (calculateMixing inp) = mixerCoV_of inp"
  "viscosityRatio (calculateMixing inp)
     = injectedViscosity_of inp / js_or (viscosity inp) (Fin 0.000001)"
  "injectedViscosity (calculateMixing inp) = injectedViscosity_of inp"
  "injectedDensity (calculateMixing inp) = injectedDensity_of inp"
  "totalInjectionFlow (calculateMixing inp) = totalInjectionFlowLh inp"
  "headloss (calculateMixing inp) = headlossKpa inp"
  "headlossMeters (calculateMixing inp) = headlossMeters_of inp"
  "gValue (calculateMixing inp) = gValue_of inp"
  "limeSaturationLimit (calculateMixing inp) = limeSaturationLimit_of inp"
  "dissolvedAtTarget (calculateMixing inp) = Math_min (Fin 100) (dissolvedAtTarget_of inp)"
  "timeTo95Dissolution (calculateMixing inp) = timeTo95 inp"
  "distanceTo95Dissolution (calculateMixing inp) = distanceTo95 inp"
  "suggestedOrificeDiameter (calculateMixing inp) = suggestedOrificeDiameter_of inp * Fin 1000"
  "manufacturerNotes (calculateMixing inp) = manufacturerNotes_of inp"
  "hydraulicDiameter (calculateMixing inp) = hydraulicDiameter_of inp"
  "wettedArea (calculateMixing inp) = area inp"
  "mixingDistanceNeeded (calculateMixing inp) = finalDistanceNeeded inp"
  "mixingTimeNeeded (calculateMixing inp) = mixingTimeNeeded_of inp"
  by (simp_all add: calculateMixing_def)

lemma Math_pow_square: "Math_pow (Fin x) 2 = Fin (x * x)"
  by (simp add: odd_integer_def is_integer_def power2_eq_square)


lemmas hydraulics_defs =
  depth_of_def g_def waterDensity_def waterViscosity_def totalInjectionFlowLh_def
  totalInjectionFlowM3s_def x_chem_def x_water_def injectedDensity_of_def
  injectedViscosity_of_def geometry_def area_def perimeter_def hydraulicDiameter_of_def
  Q_m3s_def velocity_of_def Re_of_def targetMR_def numPoints_def flowPerPointM3s_def
  suggestedOrificeDiameter_of_def d_inj_default_def u_inj_actual_def momentumRatio_of_def
  classifyRegime_def momentumRegime_of_def alpha_def LD_def

lemmas correlation_defs =
  initial_def case_KENICS_KM_def case_HEV_def case_SMV_def case_STM_def default_FD_def
  case_default_def correlation_def FD_def Lm_def manufacturerNotes_of_def clampCoV_def
  mixerCoV_of_def

lemmas js_defs = js_or_def js_gt_def Math_max_def Math_min_def minus_jsnum_def Let_def

section \<open>Headloss\<close>

text \<open>
  Claim C5. With \<^verbatim>\<open>mixerModel = WEIR\<close> the field \<^verbatim>\<open>headlossMeters\<close> is exactly 0.15,
  whatever the velocity, the density and the hydraulic diameter are. For every other
  mixer model it is \<^verbatim>\<open>FD * Lm * velocity^2 / (2 * 9.81 * hydraulicDiameter)\<close>, with
  \<^verbatim>\<open>FD\<close> and \<^verbatim>\<open>Lm\<close> as the switch left them. The headloss in kPa is
  \<^verbatim>\<open>headlossMeters * density * 9.81 / 1000\<close> for every model.
\<close>

theorem headloss_WEIR_fixed_else_formula:
  "(mixerModel inp = WEIR \<longrightarrow> headlossMeters (calculateMixing inp) = Fin 0.15)
   \<and> (mixerModel inp \<noteq> WEIR \<longrightarrow>
        headlossMeters (calculateMixing inp)
          = (FD inp * Lm inp * Math_pow (velocity (calculateMixing inp)) 2)
              / (Fin 2 * Fin 9.81 * hydraulicDiameter (calculateMixing inp)))
   \<and> headloss (calculateMixing inp)
        = (headlossMeters (calculateMixing inp) * density inp * Fin 9.81) / Fin 1000"
  by (simp add: result_fields headlossMeters_of_def headlossKpa_def g_def)

theorem headloss_WEIR_fixed_else_formula_witness:
  "mixerModel (defaultInputs\<lparr>mixerModel := WEIR\<rparr>) = WEIR
   \<and> headlossMeters (calculateMixing (defaultInputs\<lparr>mixerModel := WEIR\<rparr>)) = Fin 0.15
   \<and> headlossMeters (calculateMixing (defaultInputs\<lparr>mixerModel := WEIR, flowRate := Fin 9000,
          density := Fin 1200, dimension := Fin 2\<rparr>)) = Fin 0.15
   \<and> headloss (calculateMixing (defaultInputs\<lparr>mixerModel := WEIR\<rparr>)) = Fin 1.4715
   \<and> mixerModel (defaultInputs\<lparr>mixerModel := KENICS_KM, conduitShape := RECTANGULAR,
          dimension := Fin 1, depth := Some (Fin 1), flowRate := Fin 3600\<rparr>) \<noteq> WEIR
   \<and> headlossMeters (calculateMixing (defaultInputs\<lparr>mixerModel := KENICS_KM,
          conduitShape := RECTANGULAR, dimension := Fin 1, depth := Some (Fin 1),
          flowRate := Fin 3600\<rparr>)) = Fin (190 / 327)"
  using headloss_WEIR_fixed_else_formula[of "defaultInputs\<lparr>mixerModel := WEIR\<rparr>"]
    headloss_WEIR_fixed_else_formula[of "defaultInputs\<lparr>mixerModel := WEIR, flowRate := Fin 9000,
          density := Fin 1200, dimension := Fin 2\<rparr>"]
    headloss_WEIR_fixed_else_formula[of "defaultInputs\<lparr>mixerModel := KENICS_KM,
          conduitShape := RECTANGULAR, dimension := Fin 1, depth := Some (Fin 1),
          flowRate := Fin 3600\<rparr>"]
  by (simp add: defaultInputs_def result_fields hydraulics_defs correlation_defs js_defs
      Math_pow_square)

subsection \<open>WEIR against NONE\<close>

lemma headloss_WEIR: "headlossMeters_of (inp\<lparr>mixerModel := WEIR\<rparr>) = Fin 0.15"
  by (simp add: headlossMeters_of_def)

lemma distance_WEIR_NONE:
  "mixingDistanceNeeded_of (inp\<lparr>mixerModel := WEIR\<rparr>) = mixingDistanceNeeded_of (inp\<lparr>mixerModel := NONE\<rparr>)"
  by (simp add: mixingDistanceNeeded_of_def correlation_fields_default mixerModel_update)

lemma time_WEIR_NONE:
  assumes "\<not> str_includes (chemicalType inp) ''Lime''"
  shows "finalDistanceNeeded (inp\<lparr>mixerModel := WEIR\<rparr>) = finalDistanceNeeded (inp\<lparr>mixerModel := NONE\<rparr>)"
    and "mixingTimeNeeded_of (inp\<lparr>mixerModel := WEIR\<rparr>) = mixingTimeNeeded_of (inp\<lparr>mixerModel := NONE\<rparr>)"
  using assms
  by (simp_all add: finalDistanceNeeded_def mixingTimeNeeded_of_def distance_WEIR_NONE
      mixerModel_update)

text \<open>
  Claim C10. For every input, \<^verbatim>\<open>mixerModel = WEIR\<close> gives the same \<^verbatim>\<open>mixerCoV\<close> and
  the same \<^verbatim>\<open>manufacturerNotes\<close> as \<^verbatim>\<open>mixerModel = NONE\<close>: WEIR has no case in the
  switch, so the default branch computes its correlation, with \<^verbatim>\<open>Lm = availableLength\<close>.
  The two results differ only in the fixed headloss of 0.15 m and in what is computed from
  it: every field that does not depend on the headloss is the same, and so are the
  distance, the time and the two compliance flags when the chemical is not a lime.
\<close>

theorem WEIR_blending_as_NONE:
  "mixerCoV (calculateMixing (inp\<lparr>mixerModel := WEIR\<rparr>))
     = mixerCoV (calculateMixing (inp\<lparr>mixerModel := NONE\<rparr>))
   \<and> manufacturerNotes (calculateMixing (inp\<lparr>mixerModel := WEIR\<rparr>))
     = manufacturerNotes (calculateMixing (inp\<lparr>mixerModel := NONE\<rparr>))
   \<and> correlation (inp\<lparr>mixerModel := WEIR\<rparr>) = case_default inp initial
   \<and> correlation (inp\<lparr>mixerModel := NONE\<rparr>) = case_default inp initial
   \<and> Lm (inp\<lparr>mixerModel := WEIR\<rparr>) = availableLength inp
   \<and> headlossMeters (calculateMixing (inp\<lparr>mixerModel := WEIR\<rparr>)) = Fin 0.15
   \<and> velocity (calculateMixing (inp\<lparr>mixerModel := WEIR\<rparr>))
     = velocity (calculateMixing (inp\<lparr>mixerModel := NONE\<rparr>))
   \<and> reynoldsNumber (calculateMixing (inp\<lparr>mixerModel := WEIR\<rparr>))
     = reynoldsNumber (calculateMixing (inp\<lparr>mixerModel := NONE\<rparr>))
   \<and> momentumRatio (calculateMixing (inp\<lparr>mixerModel := WEIR\<rparr>))
     = momentumRatio (calculateMixing (inp\<lparr>mixerModel := NONE\<rparr>))
   \<and> momentumRegime (calculateMixing (inp\<lparr>mixerModel := WEIR\<rparr>))
     = momentumRegime (calculateMixing (inp\<lparr>mixerModel := NONE\<rparr>))
   \<and> naturalMixingCoV (calculateMixing (inp\<lparr>mixerModel := WEIR\<rparr>))
     = naturalMixingCoV (calculateMixing (inp\<lparr>mixerModel := NONE\<rparr>))
   \<and> viscosityRatio (calculateMixing (inp\<lparr>mixerModel := WEIR\<rparr>))
     = viscosityRatio (calculateMixing (inp\<lparr>mixerModel := NONE\<rparr>))
   \<and> injectedViscosity (calculateMixing (inp\<lparr>mixerModel := WEIR\<rparr>))
     = injectedViscosity (calculateMixing (inp\<lparr>mixerModel := NONE\<rparr>))
   \<and> injectedDensity (calculateMixing (inp\<lparr>mixerModel := WEIR\<rparr>))
     = injectedDensity (calculateMixing (inp\<lparr>mixerModel := NONE\<rparr>))
   \<and> totalInjectionFlow (calculateMixing (inp\<lparr>mixerModel := WEIR\<rparr>))
     = totalInjectionFlow (calculateMixing (inp\<lparr>mixerModel := NONE\<rparr>))
   \<and> limeSaturationLimit (calculateMixing (inp\<lparr>mixerModel := WEIR\<rparr>))
     = limeSaturationLimit (calculateMixing (inp\<lparr>mixerModel := NONE\<rparr>))
   \<and> suggestedOrificeDiameter (calculateMixing (inp\<lparr>mixerModel := WEIR\<rparr>))
     = suggestedOrificeDiameter (calculateMixing (inp\<lparr>mixerModel := NONE\<rparr>))
   \<and> hydraulicDiameter (calculateMixing (inp\<lparr>mixerModel := WEIR\<rparr>))
     = hydraulicDiameter (calculateMixing (inp\<lparr>mixerModel := NONE\<rparr>))
   \<and> wettedArea (calculateMixing (inp\<lparr>mixerModel := WEIR\<rparr>))
     = wettedArea (calculateMixing (inp\<lparr>mixerModel := NONE\<rparr>))
   \<and> (\<not> str_includes (chemicalType inp) ''Lime'' \<longrightarrow>
        mixingDistanceNeeded (calculateMixing (inp\<lparr>mixerModel := WEIR\<rparr>))
          = mixingDistanceNeeded (calculateMixing (inp\<lparr>mixerModel := NONE\<rparr>))
        \<and> mixingTimeNeeded (calculateMixing (inp\<lparr>mixerModel := WEIR\<rparr>))
          = mixingTimeNeeded (calculateMixing (inp\<lparr>mixerModel := NONE\<rparr>))
        \<and> isTimeCompliant (calculateMixing (inp\<lparr>mixerModel := WEIR\<rparr>))
          = isTimeCompliant (calculateMixing (inp\<lparr>mixerModel := NONE\<rparr>))
        \<and> isCompliant (calculateMixing (inp\<lparr>mixerModel := WEIR\<rparr>))
          = isCompliant (calculateMixing (inp\<lparr>mixerModel := NONE\<rparr>)))"
proof -
  have cov: "mixerCoV_of (inp\<lparr>mixerModel := WEIR\<rparr>) = mixerCoV_of (inp\<lparr>mixerModel := NONE\<rparr>)"
    by (simp add: correlation_fields_default)
  have guidance: "manufacturerNotes_of (inp\<lparr>mixerModel := WEIR\<rparr>)
      = manufacturerNotes_of (inp\<lparr>mixerModel := NONE\<rparr>)"
    by (simp add: correlation_fields_default)
  have len: "Lm (inp\<lparr>mixerModel := WEIR\<rparr>) = availableLength inp"
    by (simp add: correlation_fields_default case_default_def Let_def)
  have unchanged:
    "velocity_of (inp\<lparr>mixerModel := WEIR\<rparr>) = velocity_of (inp\<lparr>mixerModel := NONE\<rparr>)"
    "Re_of (inp\<lparr>mixerModel := WEIR\<rparr>) = Re_of (inp\<lparr>mixerModel := NONE\<rparr>)"
    "momentumRatio_of (inp\<lparr>mixerModel := WEIR\<rparr>) = momentumRatio_of (inp\<lparr>mixerModel := NONE\<rparr>)"
    "momentumRegime_of (inp\<lparr>mixerModel := WEIR\<rparr>) = momentumRegime_of (inp\<lparr>mixerModel := NONE\<rparr>)"
    "injectedViscosity_of (inp\<lparr>mixerModel := WEIR\<rparr>) = injectedViscosity_of (inp\<lparr>mixerModel := NONE\<rparr>)"
    "injectedDensity_of (inp\<lparr>mixerModel := WEIR\<rparr>) = injectedDensity_of (inp\<lparr>mixerModel := NONE\<rparr>)"
    "totalInjectionFlowLh (inp\<lparr>mixerModel := WEIR\<rparr>) = totalInjectionFlowLh (inp\<lparr>mixerModel := NONE\<rparr>)"
    "limeSaturationLimit_of (inp\<lparr>mixerModel := WEIR\<rparr>) = limeSaturationLimit_of (inp\<lparr>mixerModel := NONE\<rparr>)"
    "suggestedOrificeDiameter_of (inp\<lparr>mixerModel := WEIR\<rparr>) = suggestedOrificeDiameter_of (inp\<lparr>mixerModel := NONE\<rparr>)"
    "hydraulicDiameter_of (inp\<lparr>mixerModel := WEIR\<rparr>) = hydraulicDiameter_of (inp\<lparr>mixerModel := NONE\<rparr>)"
    "area (inp\<lparr>mixerModel := WEIR\<rparr>) = area (inp\<lparr>mixerModel := NONE\<rparr>)"
    by (simp_all add: mixerModel_update)
  show ?thesis
    by (simp add: result_fields cov guidance len unchanged correlation_default headloss_WEIR
        time_WEIR_NONE)
      (simp add: calculateMixing_def cov time_WEIR_NONE)
qed

theorem WEIR_blending_as_NONE_witness:
  "mixerCoV (calculateMixing (defaultInputs\<lparr>mixerModel := WEIR\<rparr>))
     = mixerCoV (calculateMixing (defaultInputs\<lparr>mixerModel := NONE\<rparr>))
   \<and> manufacturerNotes (calculateMixing (defaultInputs\<lparr>mixerModel := WEIR\<rparr>))
     = ''Standard BHR quill recommendations apply.''
   \<and> manufacturerNotes (calculateMixing (defaultInputs\<lparr>mixerModel := NONE\<rparr>))
     = ''Standard BHR quill recommendations apply.''
   \<and> Lm (defaultInputs\<lparr>mixerModel := WEIR\<rparr>) = Fin 10
   \<and> \<not> str_includes (chemicalType defaultInputs) ''Lime''
   \<and> mixingTimeNeeded (calculateMixing (defaultInputs\<lparr>mixerModel := WEIR\<rparr>))
          = mixingTimeNeeded (calculateMixing (defaultInputs\<lparr>mixerModel := NONE\<rparr>))"
proof -
  have lime: "\<not> str_includes (chemicalType defaultInputs) ''Lime''"
    by (simp add: defaultInputs_def)
  have guidance: "manufacturerNotes (calculateMixing (defaultInputs\<lparr>mixerModel := NONE\<rparr>))
     = ''Standard BHR quill recommendations apply.''"
    by (simp add: result_fields manufacturerNotes_of_def correlation_default
        case_default_def Let_def initial_def)
  have len: "availableLength defaultInputs = Fin 10"
    by (simp add: defaultInputs_def)
  show ?thesis
    using WEIR_blending_as_NONE[of defaultInputs] lime guidance len by simp
qed

section \<open>Momentum regime\<close>

text \<open>
  Claim C9. The regime classification has fixed thresholds: a momentum ratio of 0.15 is
  \<open>Low\<close>, 0.16 is not \<open>Low\<close>, 0.24 is not \<open>High\<close>, 0.25 is \<open>High\<close>; in general a ratio
  below 0.16 is \<open>Low\<close>, a ratio above 0.24 is \<open>High\<close>, and every other ratio is
  \<open>Intermediate\<close> (a \<^verbatim>\<open>NaN\<close> ratio included, since both comparisons fail on it). The
  \<^verbatim>\<open>momentumRegime\<close> field of the result is that classification of its
  \<^verbatim>\<open>momentumRatio\<close> field.
\<close>

theorem momentum_regime_thresholds:
  "classifyRegime (Fin 0.15) = Low
   \<and> classifyRegime (Fin 0.16) \<noteq> Low
   \<and> classifyRegime (Fin 0.24) \<noteq> High
   \<and> classifyRegime (Fin 0.25) = High
   \<and> momentumRegime (calculateMixing inp)
       = classifyRegime (momentumRatio (calculateMixing inp))
   \<and> (js_lt (momentumRatio (calculateMixing inp)) (Fin 0.16)
        \<longrightarrow> momentumRegime (calculateMixing inp) = Low)
   \<and> (js_gt (momentumRatio (calculateMixing inp)) (Fin 0.24)
        \<longrightarrow> momentumRegime (calculateMixing inp) = High)
   \<and> (\<not> js_lt (momentumRatio (calculateMixing inp)) (Fin 0.16)
        \<and> \<not> js_gt (momentumRatio (calculateMixing inp)) (Fin 0.24)
        \<longrightarrow> momentumRegime (calculateMixing inp) = Intermediate)
   \<and> classifyRegime mr
       = (case mr of
            Fin r \<Rightarrow> if r < 0.16 then Low else if 0.24 < r then High else Intermediate
          | PInf \<Rightarrow> High
          | NInf \<Rightarrow> Low
          | NaN \<Rightarrow> Intermediate)"
proof -
  have link: "momentumRegime (calculateMixing inp)
       = classifyRegime (momentumRatio (calculateMixing inp))"
    by (simp add: result_fields momentumRegime_of_def)
  have high: "js_gt m (Fin 0.24) \<Longrightarrow> \<not> js_lt m (Fin 0.16)" for m
    by (cases m) (simp_all add: js_gt_def)
  have shape: "classifyRegime mr
       = (case mr of
            Fin r \<Rightarrow> if r < 0.16 then Low else if 0.24 < r then High else Intermediate
          | PInf \<Rightarrow> High
          | NInf \<Rightarrow> Low
          | NaN \<Rightarrow> Intermediate)"
    by (cases mr) (simp_all add: classifyRegime_def js_gt_def)
  show ?thesis
    using high[of "momentumRatio (calculateMixing inp)"]
    by (simp add: link shape) (simp add: classifyRegime_def js_gt_def)
qed

lemma momentumRatio_example:
  "momentumRatio_of (defaultInputs\<lparr>dimension := Fin 1, flowRate := Fin 100,
      chemicalDensity := Fin 1000, dilutionWaterFlow := Fin 0, chemicalFlow := Fin q\<rparr>)
   = Fin (q / 2500)"
  by (simp add: defaultInputs_def hydraulics_defs js_defs Math_pow_square power2_eq_square)

theorem momentum_regime_thresholds_witness:
  "momentumRatio (calculateMixing (defaultInputs\<lparr>dimension := Fin 1, flowRate := Fin 100,
      chemicalDensity := Fin 1000, dilutionWaterFlow := Fin 0, chemicalFlow := Fin 375\<rparr>))
     = Fin 0.15
   \<and> momentumRegime (calculateMixing (defaultInputs\<lparr>dimension := Fin 1, flowRate := Fin 100,
      chemicalDensity := Fin 1000, dilutionWaterFlow := Fin 0, chemicalFlow := Fin 375\<rparr>))
     = Low
   \<and> momentumRatio (calculateMixing (defaultInputs\<lparr>dimension := Fin 1, flowRate := Fin 100,
      chemicalDensity := Fin 1000, dilutionWaterFlow := Fin 0, chemicalFlow := Fin 400\<rparr>))
     = Fin 0.16
   \<and> momentumRegime (calculateMixing (defaultInputs\<lparr>dimension := Fin 1, flowRate := Fin 100,
      chemicalDensity := Fin 1000, dilutionWaterFlow := Fin 0, chemicalFlow := Fin 400\<rparr>))
     = Intermediate
   \<and> momentumRatio (calculateMixing (defaultInputs\<lparr>dimension := Fin 1, flowRate := Fin 100,
      chemicalDensity := Fin 1000, dilutionWaterFlow := Fin 0, chemicalFlow := Fin 600\<rparr>))
     = Fin 0.24
   \<and> momentumRegime (calculateMixing (defaultInputs\<lparr>dimension := Fin 1, flowRate := Fin 100,
      chemicalDensity := Fin 1000, dilutionWaterFlow := Fin 0, chemicalFlow := Fin 600\<rparr>))
     = Intermediate
   \<and> momentumRatio (calculateMixing (defaultInputs\<lparr>dimension := Fin 1, flowRate := Fin 100,
      chemicalDensity := Fin 1000, dilutionWaterFlow := Fin 0, chemicalFlow := Fin 625\<rparr>))
     = Fin 0.25
   \<and> momentumRegime (calculateMixing (defaultInputs\<lparr>dimension := Fin 1, flowRate := Fin 100,
      chemicalDensity := Fin 1000, dilutionWaterFlow := Fin 0, chemicalFlow := Fin 625\<rparr>))
     = High"
  using
    momentum_regime_thresholds[of "defaultInputs\<lparr>dimension := Fin 1, flowRate := Fin 100,
      chemicalDensity := Fin 1000, dilutionWaterFlow := Fin 0, chemicalFlow := Fin 375\<rparr>" NaN]
    momentum_regime_thresholds[of "defaultInputs\<lparr>dimension := Fin 1, flowRate := Fin 100,
      chemicalDensity := Fin 1000, dilutionWaterFlow := Fin 0, chemicalFlow := Fin 400\<rparr>" NaN]
    momentum_regime_thresholds[of "defaultInputs\<lparr>dimension := Fin 1, flowRate := Fin 100,
      chemicalDensity := Fin 1000, dilutionWaterFlow := Fin 0, chemicalFlow := Fin 600\<rparr>" NaN]
    momentum_regime_thresholds[of "defaultInputs\<lparr>dimension := Fin 1, flowRate := Fin 100,
      chemicalDensity := Fin 1000, dilutionWaterFlow := Fin 0, chemicalFlow := Fin 625\<rparr>" NaN]
  by (simp add: result_fields momentumRatio_example js_gt_def classifyRegime_def)

section \<open>Injection blend\<close>



section \<open>Rectangular duct\<close>





section \<open>Signs of numbers\<close>



lemma isFinite_D: "isFinite a \<Longrightarrow> \<exists>x. a = Fin x"
  by (cases a) simp_all



lemma is_pos_finite: "is_pos a \<Longrightarrow> isFinite a"
  by (cases a) simp_all




lemma nonneg_plus_pos: "is_nonneg a \<Longrightarrow> is_pos b \<Longrightarrow> is_pos (a + b)"
  by (cases a; cases b) simp_all














lemma finite_log10: "is_pos a \<Longrightarrow> isFinite (Math_log10 a)"
  by (cases a) simp_all





lemma finite_min: "isFinite a \<Longrightarrow> isFinite b \<Longrightarrow> isFinite (Math_min a b)"
  by (cases a; cases b) (auto simp add: Math_min_def)

lemma not_negative_times: "not_negative a \<Longrightarrow> not_negative b \<Longrightarrow> not_negative (a * b)"
  by (cases a; cases b) simp_all

lemma not_negative_sqrt: "not_negative (Math_sqrt a)"
  by (cases a) simp_all

lemma not_negative_exp: "not_negative (Math_exp a)"
  by (cases a) simp_all

lemma not_negative_pow: "\<not> is_integer y \<Longrightarrow> not_negative (Math_pow a y)"
  by (cases a) (auto simp add: odd_integer_def)

section \<open>The clamp on mixerCoV\<close>

lemma clampCoV_simps:
  "clampCoV (Fin x) = Fin (min 1 (max 0.0001 x))"
  "clampCoV PInf = Fin 1"
  "clampCoV NInf = Fin 0.0001"
  "clampCoV NaN = Fin 1"
  by (simp_all add: clampCoV_def Math_min_def Math_max_def min_def max_def)

lemma clampCoV_range:
  "js_le (Fin 0.0001) (clampCoV c) \<and> js_le (clampCoV c) (Fin 1) \<and> is_pos (clampCoV c)"
  by (cases c) (simp_all add: clampCoV_simps)

lemma clampCoV_nonfinite: "not_negative c \<Longrightarrow> \<not> isFinite c \<Longrightarrow> clampCoV c = Fin 1"
  by (cases c) (simp_all add: clampCoV_simps)

lemmas not_negative_intros =
  not_negative_times not_negative_sqrt not_negative_exp not_negative_pow

lemma not_negative_KENICS_KM: "not_negative (cor_mixerCoV (case_KENICS_KM inp s))"
  by (auto simp add: case_KENICS_KM_def is_integer_def intro!: not_negative_intros)

lemma not_negative_HEV: "not_negative (cor_mixerCoV (case_HEV inp s))"
  by (auto simp add: case_HEV_def is_integer_def intro!: not_negative_intros)

lemma not_negative_SMV: "not_negative (cor_mixerCoV (case_SMV inp s))"
  by (auto simp add: case_SMV_def is_integer_def intro!: not_negative_intros)

lemma not_negative_STM: "not_negative (cor_mixerCoV (case_STM inp s))"
  by (auto simp add: case_STM_def is_integer_def intro!: not_negative_intros)

lemma not_negative_default: "not_negative (cor_mixerCoV (case_default inp s))"
  by (auto simp add: case_default_def Let_def is_integer_def intro!: not_negative_intros)

lemma raw_not_negative: "not_negative (cor_mixerCoV (correlation inp))"
  by (cases "mixerModel inp")
    (simp_all add: correlation_def not_negative_KENICS_KM not_negative_HEV not_negative_SMV
      not_negative_STM not_negative_default)

text \<open>
  Claim C1. For every input, the \<^verbatim>\<open>mixerCoV\<close> field of the result lies in the closed
  interval from 0.0001 to 1.0 (and so is a finite number), and a correlation result that
  is not finite is replaced by the worst case 1.0. The second part rests on the sign of
  the correlations: each is a product of non-negative factors, so the only non-finite
  values the switch can leave in \<^verbatim>\<open>mixerCoV\<close> are \<^verbatim>\<open>NaN\<close>, which line 153 replaces by
  1.0, and \<^verbatim>\<open>Infinity\<close>, which \<^verbatim>\<open>Math.min\<close> cuts to 1.0.
\<close>

theorem mixerCoV_clamped:
  "js_le (Fin 0.0001) (mixerCoV (calculateMixing inp))
   \<and> js_le (mixerCoV (calculateMixing inp)) (Fin 1)
   \<and> isFinite (mixerCoV (calculateMixing inp))
   \<and> (\<not> isFinite (cor_mixerCoV (correlation inp))
        \<longrightarrow> mixerCoV (calculateMixing inp) = Fin 1)"
  using clampCoV_range[of "cor_mixerCoV (correlation inp)"]
    clampCoV_nonfinite[OF raw_not_negative, of inp]
  by (simp add: result_fields mixerCoV_of_def is_pos_finite)

lemma raw_zero_flow:
  "cor_mixerCoV (correlation (defaultInputs\<lparr>mixerModel := KENICS_KM, flowRate := Fin 0\<rparr>)) = NaN"
  by (simp add: defaultInputs_def hydraulics_defs correlation_defs js_defs)

lemma raw_zero_elements:
  "cor_mixerCoV (correlation (defaultInputs\<lparr>mixerModel := KENICS_KM, numElements := Fin 0\<rparr>)) = PInf"
  by (simp add: defaultInputs_def hydraulics_defs correlation_defs js_defs)

theorem mixerCoV_clamped_witness:
  "\<not> isFinite (cor_mixerCoV (correlation
        (defaultInputs\<lparr>mixerModel := KENICS_KM, flowRate := Fin 0\<rparr>)))
   \<and> mixerCoV (calculateMixing (defaultInputs\<lparr>mixerModel := KENICS_KM, flowRate := Fin 0\<rparr>))
       = Fin 1
   \<and> \<not> isFinite (cor_mixerCoV (correlation
        (defaultInputs\<lparr>mixerModel := KENICS_KM, numElements := Fin 0\<rparr>)))
   \<and> mixerCoV (calculateMixing (defaultInputs\<lparr>mixerModel := KENICS_KM, numElements := Fin 0\<rparr>))
       = Fin 1"
  using mixerCoV_clamped[of "defaultInputs\<lparr>mixerModel := KENICS_KM, flowRate := Fin 0\<rparr>"]
    mixerCoV_clamped[of "defaultInputs\<lparr>mixerModel := KENICS_KM, numElements := Fin 0\<rparr>"]
  by (simp add: raw_zero_flow raw_zero_elements)

section \<open>Well-formed inputs: the sign of every local\<close>








lemma FD_cases:
  "FD inp = (case mixerModel inp of
       KENICS_KM \<Rightarrow> Fin 1.9
     | HEV \<Rightarrow> (if conduitType inp = CHANNEL then Fin 0.45 else Fin 0.6)
     | SMV \<Rightarrow> Fin 10.1
     | STM \<Rightarrow> (if conduitType inp = CHANNEL
                then (if pitchRatio inp = PR_1_125 then Fin 3.0
                      else if pitchRatio inp = PR_1_5 then Fin 7.6 else Fin 1.9)
                else (if pitchRatio inp = PR_1_5 then Fin 4.15 else Fin 2.3))
     | _ \<Rightarrow> default_FD inp)"
  by (cases "mixerModel inp")
    (simp_all add: FD_def correlation_def case_KENICS_KM_def case_HEV_def case_SMV_def
      case_STM_def case_default_def Let_def)

















section \<open>Zero injection flow\<close>









text \<open>
  The friction factor of line 141 divides by the square of a logarithm, which is 0 when
  its argument is 1. In exact arithmetic a square duct of side \<open>128 / 4682905\<close> m at a
  Reynolds number of 1024 is such a point: every input is positive, and the friction
  factor and the headloss are \<^verbatim>\<open>Infinity\<close>. So the bound on the friction factor in the
  statement on zero injection flow below is not implied by the signs of the inputs.
\<close>

lemma square_duct_hydraulics:
  assumes "conduitType inp = PIPE" and "conduitShape inp = RECTANGULAR"
    and "dimension inp = Fin d" and "depth inp = Some (Fin d)" and "0 < d"
    and "flowRate inp = Fin q" and "density inp = Fin rho" and "viscosity inp = Fin mu"
    and "0 < mu"
  shows "hydraulicDiameter_of inp = Fin d"
    and "area inp = Fin (d * d)"
    and "velocity_of inp = Fin (q / 3600 / (d * d))"
    and "Re_of inp = Fin (rho * (q / 3600 / (d * d)) * d / mu)"
proof -
  show dh: "hydraulicDiameter_of inp = Fin d"
    using assms(5)
    by (simp add: hydraulicDiameter_of_def geometry_def depth_of_def js_or_def Let_def
        assms(1-4))
  show a: "area inp = Fin (d * d)"
    using assms(5)
    by (simp add: area_def geometry_def depth_of_def js_or_def Let_def assms(1-4))
  show v: "velocity_of inp = Fin (q / 3600 / (d * d))"
    using assms(5) by (simp add: velocity_of_def Q_m3s_def a assms(6) js_or_def)
  show "Re_of inp = Fin (rho * (q / 3600 / (d * d)) * d / mu)"
    using assms(9) by (simp add: Re_of_def v dh assms(7,8) js_or_def)
qed

lemma NONE_correlation:
  assumes "mixerModel inp = NONE"
  shows "FD inp = default_FD inp" and "Lm inp = availableLength inp"
  by (simp_all add: FD_cases Lm_def correlation_def case_default_def Let_def assms)

lemma friction_factor_singular:
  "wellFormed (defaultInputs\<lparr>conduitShape := RECTANGULAR, dimension := Fin (128 / 4682905),
      depth := Some (Fin (128 / 4682905)), flowRate := Fin (3.6864 * (128 / 4682905)),
      chemicalFlow := Fin 0, dilutionWaterFlow := Fin 0\<rparr>)
   \<and> FD (defaultInputs\<lparr>conduitShape := RECTANGULAR, dimension := Fin (128 / 4682905),
      depth := Some (Fin (128 / 4682905)), flowRate := Fin (3.6864 * (128 / 4682905)),
      chemicalFlow := Fin 0, dilutionWaterFlow := Fin 0\<rparr>) = PInf
   \<and> headlossMeters (calculateMixing (defaultInputs\<lparr>conduitShape := RECTANGULAR,
      dimension := Fin (128 / 4682905), depth := Some (Fin (128 / 4682905)),
      flowRate := Fin (3.6864 * (128 / 4682905)),
      chemicalFlow := Fin 0, dilutionWaterFlow := Fin 0\<rparr>)) = PInf"
proof -
  let ?inp = "defaultInputs\<lparr>conduitShape := RECTANGULAR, dimension := Fin (128 / 4682905),
      depth := Some (Fin (128 / 4682905)), flowRate := Fin (3.6864 * (128 / 4682905)),
      chemicalFlow := Fin 0, dilutionWaterFlow := Fin 0\<rparr>"
  have w: "wellFormed ?inp"
    by (simp add: wellFormed_def defaultInputs_def)
  have fields: "conduitType ?inp = PIPE" "conduitShape ?inp = RECTANGULAR"
    "dimension ?inp = Fin (128 / 4682905)" "depth ?inp = Some (Fin (128 / 4682905))"
    "flowRate ?inp = Fin (3.6864 * (128 / 4682905))" "density ?inp = Fin 1000"
    "viscosity ?inp = Fin 0.001" "mixerModel ?inp = NONE" "availableLength ?inp = Fin 10"
    by (simp_all add: defaultInputs_def)
  have d0: "(0::real) < 128 / 4682905" and mu0: "(0::real) < 0.001" by simp_all
  note hyd = square_duct_hydraulics[OF fields(1-4) d0 fields(5-7) mu0]
  have re: "Re_of ?inp = Fin 1024"
    unfolding hyd(4) by simp
  have "(1024::real) powr 0.9 = (2 ^ 10) powr 0.9" by simp
  also have "\<dots> = (2 powr 10) powr 0.9" by (simp add: powr_realpow[symmetric])
  also have "\<dots> = 2 powr 9" by (simp only: powr_powr) simp
  finally have p: "(1024::real) powr 0.9 = 512" by simp
  have fd: "default_FD ?inp = PInf"
    unfolding default_FD_def hyd(1) re
    by (simp add: p odd_integer_def is_integer_def)
  have f: "FD ?inp = PInf"
    by (simp only: NONE_correlation(1)[OF fields(8)] fd)
  have lm: "Lm ?inp = Fin 10"
    by (simp only: NONE_correlation(2)[OF fields(8)] fields(9))
  have "headlossMeters_of ?inp = PInf"
    unfolding headlossMeters_of_def f lm hyd(1,3) g_def Math_pow_square fields(8)
    by simp
  with w f show ?thesis
    by (simp add: result_fields)
qed




section \<open>Dissolved percentage\<close>











section \<open>KENICS_KM with SINGLE injection: the element count\<close>
















end
